theory Spec2Isabelle
  imports Main
begin

section \<open>The repository configuration reader of Atlantis\<close>

text \<open>
  A shallow embedding of \<^verbatim>\<open>server/events/repoconfig/reader.go\<close>: the loader and
  validator of \<^verbatim>\<open>atlantis.yaml\<close> and the resolution of the plan and apply stages of a
  project into an ordered list of steps.

  Conventions of the embedding:
  \<^item> a Go struct is a record with the fields of the source, an interface value is an
    \<open>option\<close> (\<open>None\<close> is the nil interface), a Go map is a partial function;
  \<^item> a Go \<^verbatim>\<open>(value, error)\<close> result is a sum, \<open>Inl\<close> carrying the error;
  \<^item> an error or a log line keeps its format string and its arguments apart, as the
    source passes them to \<^verbatim>\<open>fmt.Errorf\<close>, \<^verbatim>\<open>errors.Wrapf\<close> and \<^verbatim>\<open>log.Info\<close>;
  \<^item> the file system and the library functions the reader calls are the fields of
    the record \<open>Env\<close>; the logger, the Terraform executor and the Terraform version
    are opaque references, the type parameters \<open>'l\<close>, \<open>'e\<close> and \<open>'v\<close>;
  \<^item> the lines a call logs are returned beside its result, in the order logged.
\<close>

subsection \<open>Errors and log lines\<close>

text \<open>An argument of a format string: \<^verbatim>\<open>%s\<close> and \<^verbatim>\<open>%q\<close> take a string, \<^verbatim>\<open>%d\<close> the index
  of a \<^verbatim>\<open>range\<close> loop.\<close>

datatype Arg = S string | D nat

text \<open>
  \<open>New msg\<close> is \<^verbatim>\<open>errors.New(msg)\<close>, \<open>Errorf format args\<close> is \<^verbatim>\<open>fmt.Errorf(format, args...)\<close>,
  \<open>Wrapf err format args\<close> is \<^verbatim>\<open>errors.Wrapf(err, format, args...)\<close>. \<open>PathError notExist msg\<close>
  is an error of the operating system, as \<^verbatim>\<open>ioutil.ReadFile\<close> returns them: \<open>notExist\<close> is
  the answer of \<^verbatim>\<open>os.IsNotExist\<close> for it.
\<close>

datatype error =
    New string
  | Errorf string "Arg list"
  | Wrapf error string "Arg list"
  | PathError bool string

fun IsNotExist :: "error \<Rightarrow> bool" where
  "IsNotExist (PathError notExist msg) = notExist"
| "IsNotExist (New msg) = False"
| "IsNotExist (Errorf format args) = False"
| "IsNotExist (Wrapf err format args) = False"

datatype LogLine = Info string "Arg list"

subsection \<open>The configuration schema\<close>

text \<open>
  Modelled from the spec: the types \<^verbatim>\<open>RepoConfig\<close>, \<^verbatim>\<open>ProjectConfig\<close>, \<^verbatim>\<open>WorkflowConfig\<close>,
  \<^verbatim>\<open>StageConfig\<close> and \<^verbatim>\<open>StepConfig\<close> are declared outside \<^verbatim>\<open>reader.go\<close>. The fields are
  the ones the reader selects; \<open>StepType\<close> is a string, since the reader compares it
  with string literals.
\<close>

record StepConfig =
  StepType :: string
  ExtraArgs :: "string list"

record StageConfig =
  Steps :: "StepConfig list"

record WorkflowConfig =
  Plan :: StageConfig
  Apply :: StageConfig

record ProjectConfig =
  Dir :: string
  Workspace :: string
  Workflow :: string

record RepoConfig =
  Version :: int
  Projects :: "ProjectConfig list"
  Workflows :: "string \<rightharpoonup> WorkflowConfig"

subsection \<open>Steps\<close>

text \<open>
  Modelled from the spec: \<^verbatim>\<open>StepMeta\<close>, the three step structs and the stage structs are
  declared outside \<^verbatim>\<open>reader.go\<close>; the fields are the ones the reader sets.
\<close>

record ('l, 'e, 'v) StepMeta =
  Log :: 'l
  Workspace :: string
  AbsolutePath :: string
  DirRelativeToRepoRoot :: string
  TerraformVersion :: 'v
  TerraformExecutor :: 'e
  ExtraCommentArgs :: "string list"
  Username :: string

datatype ('l, 'e, 'v) StepStruct =
    InitStep (Meta: "('l, 'e, 'v) StepMeta") (ExtraArgs: "string list")
  | PlanStep (Meta: "('l, 'e, 'v) StepMeta") (ExtraArgs: "string list")
  | ApplyStep (Meta: "('l, 'e, 'v) StepMeta") (ExtraArgs: "string list")

text \<open>A value of the interface \<^verbatim>\<open>Step\<close>: a pointer to one of the three structs, or nil.\<close>

type_synonym ('l, 'e, 'v) Step = "('l, 'e, 'v) StepStruct option"

record ('l, 'e, 'v) PlanStage =
  Steps :: "('l, 'e, 'v) Step list"

record ('l, 'e, 'v) ApplyStage =
  Steps :: "('l, 'e, 'v) Step list"

subsection \<open>The reader and its environment\<close>

record ('e, 'v) Reader =
  TerraformExecutor :: 'e
  DefaultTFVersion :: 'v

text \<open>
  What the reader calls outside the repository: \<^verbatim>\<open>ioutil.ReadFile\<close> (the file system),
  \<^verbatim>\<open>yaml.UnmarshalStrict\<close> into a fresh \<^verbatim>\<open>RepoConfig\<close> (\<open>Inl\<close> carries the text of the error),
  \<^verbatim>\<open>filepath.Join\<close> and \<^verbatim>\<open>strings.Replace\<close>.
\<close>

record Env =
  ioutil_ReadFile :: "string \<Rightarrow> error + string"
  yaml_UnmarshalStrict :: "string \<Rightarrow> string + RepoConfig"
  filepath_Join :: "string list \<Rightarrow> string"
  strings_Replace :: "string \<Rightarrow> string \<Rightarrow> string \<Rightarrow> int \<Rightarrow> string"

definition AtlantisYAMLFilename :: string where
  "AtlantisYAMLFilename = ''atlantis.yaml''"

definition PlanStageName :: string where
  "PlanStageName = ''plan''"

definition ApplyStageName :: string where
  "ApplyStageName = ''apply''"

subsection \<open>ParseAndValidate and ReadConfig\<close>

text \<open>The loop over the projects at the end of \<^verbatim>\<open>ParseAndValidate\<close>; \<open>i\<close> is the index of
  the first project of the list.\<close>

fun validateProjects :: "nat \<Rightarrow> ProjectConfig list \<Rightarrow> error option" where
  "validateProjects i [] = None"
| "validateProjects i (project # rest) =
     (if Dir project = ''''
      then Some (Errorf ''project at index %d invalid: dir key must be set and non-empty'' [D i])
      else validateProjects (Suc i) rest)"

text \<open>The receiver of \<^verbatim>\<open>ParseAndValidate\<close> and of \<^verbatim>\<open>ReadConfig\<close> is not used by them and is
  left out. Beside an error the source returns the configuration as far as it was
  filled, which its caller drops.\<close>

definition ParseAndValidate :: "Env \<Rightarrow> string \<Rightarrow> error + RepoConfig" where
  \<open>ParseAndValidate env configData =
     (case yaml_UnmarshalStrict env configData of
        Inl msg \<Rightarrow> Inl (New (strings_Replace env msg '' into repoconfig.RepoConfig'' '''' (- 1)))
      | Inr repoConfig \<Rightarrow>
          if Version repoConfig \<noteq> 2
          then Inl (New ''unknown version: must have "version: 2" set'')
          else if length (Projects repoConfig) = 0
          then Inl (New '''projects' key must exist and contain at least one element'')
          else (case validateProjects 0 (Projects repoConfig) of
                  Some err \<Rightarrow> Inl err
                | None \<Rightarrow> Inr repoConfig))\<close>

definition ReadConfig :: "Env \<Rightarrow> string \<Rightarrow> error + RepoConfig option" where
  "ReadConfig env repoDir =
     (let configFile = filepath_Join env [repoDir, AtlantisYAMLFilename] in
      case ioutil_ReadFile env configFile of
        Inl err \<Rightarrow>
          if IsNotExist err then Inr None
          else Inl (Wrapf err ''unable to read %s file'' [S AtlantisYAMLFilename])
      | Inr configData \<Rightarrow>
          (case ParseAndValidate env configData of
             Inl err \<Rightarrow> Inl (Wrapf err ''parsing %s'' [S AtlantisYAMLFilename])
           | Inr config \<Rightarrow> Inr (Some config)))"

subsection \<open>Building the stages\<close>

definition buildMeta ::
  "Env \<Rightarrow> ('e, 'v) Reader \<Rightarrow> 'l \<Rightarrow> string \<Rightarrow> string \<Rightarrow> string \<Rightarrow> string list \<Rightarrow> string
     \<Rightarrow> ('l, 'e, 'v) StepMeta" where
  "buildMeta env r log repoDir workspace relProjectPath extraCommentArgs username =
     \<lparr> Log = log,
       StepMeta.Workspace = workspace,
       AbsolutePath = filepath_Join env [repoDir, relProjectPath],
       DirRelativeToRepoRoot = relProjectPath,
       TerraformVersion = DefaultTFVersion r,
       StepMeta.TerraformExecutor = Reader.TerraformExecutor r,
       ExtraCommentArgs = extraCommentArgs,
       Username = username \<rparr>"

definition defaultPlanSteps ::
  "Env \<Rightarrow> ('e, 'v) Reader \<Rightarrow> 'l \<Rightarrow> string \<Rightarrow> string \<Rightarrow> string \<Rightarrow> string list \<Rightarrow> string
     \<Rightarrow> ('l, 'e, 'v) Step list" where
  "defaultPlanSteps env r log repoDir workspace relProjectPath extraCommentArgs username =
     (let meta = buildMeta env r log repoDir workspace relProjectPath extraCommentArgs username
      in [Some (InitStep meta []), Some (PlanStep meta [])])"

definition defaultApplySteps ::
  "Env \<Rightarrow> ('e, 'v) Reader \<Rightarrow> 'l \<Rightarrow> string \<Rightarrow> string \<Rightarrow> string \<Rightarrow> string list \<Rightarrow> string
     \<Rightarrow> ('l, 'e, 'v) Step list" where
  "defaultApplySteps env r log repoDir workspace relProjectPath extraCommentArgs username =
     (let meta = buildMeta env r log repoDir workspace relProjectPath extraCommentArgs username
      in [Some (ApplyStep meta [])])"

text \<open>The \<^verbatim>\<open>switch\<close> on the step type inside the loop over the step configurations: the
  variable \<^verbatim>\<open>step\<close> is declared nil and no case assigns it for another step type.\<close>

definition newStep :: "('l, 'e, 'v) StepMeta \<Rightarrow> StepConfig \<Rightarrow> ('l, 'e, 'v) Step" where
  "newStep meta stepConfig =
     (if StepType stepConfig = ''init''
        then Some (InitStep meta (StepConfig.ExtraArgs stepConfig))
      else if StepType stepConfig = ''plan''
        then Some (PlanStep meta (StepConfig.ExtraArgs stepConfig))
      else if StepType stepConfig = ''apply''
        then Some (ApplyStep meta (StepConfig.ExtraArgs stepConfig))
      else None)"

text \<open>The loop over the step configurations: every round appends \<^verbatim>\<open>step\<close> to \<^verbatim>\<open>steps\<close>.\<close>

fun buildSteps ::
  "('l, 'e, 'v) StepMeta \<Rightarrow> StepConfig list \<Rightarrow> ('l, 'e, 'v) Step list \<Rightarrow> ('l, 'e, 'v) Step list" where
  "buildSteps meta [] steps = steps"
| "buildSteps meta (stepConfig # rest) steps =
     buildSteps meta rest (steps @ [newStep meta stepConfig])"

text \<open>The body of the loop over the projects, for a project \<open>p\<close> that passed the test on
  its directory and workspace.\<close>

definition buildProject ::
  "Env \<Rightarrow> ('e, 'v) Reader \<Rightarrow> string \<Rightarrow> 'l \<Rightarrow> string \<Rightarrow> string \<Rightarrow> string \<Rightarrow> string list \<Rightarrow> string
     \<Rightarrow> ('l, 'e, 'v) Step list \<Rightarrow> (string \<rightharpoonup> WorkflowConfig) \<Rightarrow> ProjectConfig
     \<Rightarrow> LogLine list \<times> (error + ('l, 'e, 'v) Step list)" where
  "buildProject env r stageName log repoDir workspace relProjectPath extraCommentArgs username
       defaults workflows p =
     (let workflowName = Workflow p in
      if workflowName = ''''
      then ([Info (''no %s workflow set'' @ [CHR 0xE2, CHR 0x80, CHR 0x93, CHR 0xE2, CHR 0x80, CHR 0x93]
                     @ ''continuing with defaults'') [S AtlantisYAMLFilename]],
            Inr defaults)
      else (case workflows workflowName of
              None \<Rightarrow> ([], Inl (Errorf ''no workflow with key %q defined'' [S workflowName]))
            | Some workflow \<Rightarrow>
                (let meta = buildMeta env r log repoDir workspace relProjectPath
                              extraCommentArgs username;
                     stepsConfig = (if stageName = PlanStageName
                                    then StageConfig.Steps (Plan workflow)
                                    else StageConfig.Steps (Apply workflow))
                 in ([], Inr (buildSteps meta stepsConfig [])))))"

text \<open>The loop over the projects of the configuration.\<close>

fun scanProjects ::
  "Env \<Rightarrow> ('e, 'v) Reader \<Rightarrow> string \<Rightarrow> 'l \<Rightarrow> string \<Rightarrow> string \<Rightarrow> string \<Rightarrow> string list \<Rightarrow> string
     \<Rightarrow> ('l, 'e, 'v) Step list \<Rightarrow> (string \<rightharpoonup> WorkflowConfig) \<Rightarrow> ProjectConfig list
     \<Rightarrow> LogLine list \<times> (error + ('l, 'e, 'v) Step list)" where
  "scanProjects env r stageName log repoDir workspace relProjectPath extraCommentArgs username
       defaults workflows [] =
     ([], Inl (Errorf ''no project with dir %q and workspace %q defined''
                 [S relProjectPath, S workspace]))"
| "scanProjects env r stageName log repoDir workspace relProjectPath extraCommentArgs username
       defaults workflows (p # ps) =
     (if Dir p = relProjectPath \<and> ProjectConfig.Workspace p = workspace
      then buildProject env r stageName log repoDir workspace relProjectPath extraCommentArgs
             username defaults workflows p
      else scanProjects env r stageName log repoDir workspace relProjectPath extraCommentArgs
             username defaults workflows ps)"

definition BuildStage ::
  "Env \<Rightarrow> ('e, 'v) Reader \<Rightarrow> string \<Rightarrow> 'l \<Rightarrow> string \<Rightarrow> string \<Rightarrow> string \<Rightarrow> string list \<Rightarrow> string
     \<Rightarrow> ('l, 'e, 'v) Step list \<Rightarrow> LogLine list \<times> (error + ('l, 'e, 'v) Step list)" where
  "BuildStage env r stageName log repoDir workspace relProjectPath extraCommentArgs username
       defaults =
     (case ReadConfig env repoDir of
        Inl err \<Rightarrow> ([], Inl err)
      | Inr None \<Rightarrow>
          ([Info (''no %s file found'' @ [CHR 0xE2, CHR 0x80, CHR 0x93, CHR 0xE2, CHR 0x80, CHR 0x93]
                    @ ''continuing with defaults'') [S AtlantisYAMLFilename]],
           Inr defaults)
      | Inr (Some config) \<Rightarrow>
          scanProjects env r stageName log repoDir workspace relProjectPath extraCommentArgs
            username defaults (Workflows config) (Projects config))"

definition BuildPlanStage ::
  "Env \<Rightarrow> ('e, 'v) Reader \<Rightarrow> 'l \<Rightarrow> string \<Rightarrow> string \<Rightarrow> string \<Rightarrow> string list \<Rightarrow> string
     \<Rightarrow> LogLine list \<times> (error + ('l, 'e, 'v) PlanStage)" where
  "BuildPlanStage env r log repoDir workspace relProjectPath extraCommentArgs username =
     (let defaults = defaultPlanSteps env r log repoDir workspace relProjectPath
                       extraCommentArgs username
      in case BuildStage env r PlanStageName log repoDir workspace relProjectPath
                extraCommentArgs username defaults of
           (logged, Inl err) \<Rightarrow> (logged, Inl err)
         | (logged, Inr steps) \<Rightarrow> (logged, Inr \<lparr> PlanStage.Steps = steps \<rparr>))"

definition BuildApplyStage ::
  "Env \<Rightarrow> ('e, 'v) Reader \<Rightarrow> 'l \<Rightarrow> string \<Rightarrow> string \<Rightarrow> string \<Rightarrow> string list \<Rightarrow> string
     \<Rightarrow> LogLine list \<times> (error + ('l, 'e, 'v) ApplyStage)" where
  "BuildApplyStage env r log repoDir workspace relProjectPath extraCommentArgs username =
     (let defaults = defaultApplySteps env r log repoDir workspace relProjectPath
                       extraCommentArgs username
      in case BuildStage env r ApplyStageName log repoDir workspace relProjectPath
                extraCommentArgs username defaults of
           (logged, Inl err) \<Rightarrow> (logged, Inl err)
         | (logged, Inr steps) \<Rightarrow> (logged, Inr \<lparr> ApplyStage.Steps = steps \<rparr>))"

subsection \<open>The first project of a directory and workspace\<close>

text \<open>The project the loop over the projects stops at: the first one, in the order of the
  file, whose directory and workspace are the requested ones.\<close>

abbreviation firstProject :: "string \<Rightarrow> string \<Rightarrow> ProjectConfig list \<Rightarrow> ProjectConfig option" where
  "firstProject relProjectPath workspace ps \<equiv>
     find (\<lambda>p. Dir p = relProjectPath \<and> ProjectConfig.Workspace p = workspace) ps"

text \<open>The step types the \<^verbatim>\<open>switch\<close> has a case for.\<close>

definition recognized :: "StepConfig \<Rightarrow> bool" where
  "recognized stepConfig \<longleftrightarrow> StepType stepConfig \<in> {''init'', ''plan'', ''apply''}"

subsection \<open>A repository to evaluate the reader on\<close>

text \<open>
  A checkout at \<^verbatim>\<open>/repo\<close> whose only file is \<^verbatim>\<open>/repo/atlantis.yaml\<close>, which deserializes
  to the configuration given. Paths are joined with a slash. The workflow \<^verbatim>\<open>custom1\<close> has
  a plan stage with a step of the type \<^verbatim>\<open>custom\<close> between an init and a plan step.
\<close>

definition example_Join :: "string list \<Rightarrow> string" where
  "example_Join elems = foldr (\<lambda>a b. if b = [] then a else a @ ''/'' @ b) elems []"

definition example_env :: "RepoConfig \<Rightarrow> Env" where
  "example_env config =
     \<lparr> ioutil_ReadFile = (\<lambda>name. if name = ''/repo/atlantis.yaml'' then Inr ''version: 2''
                                else Inl (PathError True ''no such file or directory'')),
       yaml_UnmarshalStrict = (\<lambda>configData. Inr config),
       filepath_Join = example_Join,
       strings_Replace = (\<lambda>s old new n. s) \<rparr>"

definition example_workflow :: WorkflowConfig where
  "example_workflow =
     \<lparr> Plan = \<lparr> StageConfig.Steps =
                  [\<lparr> StepType = ''init'', StepConfig.ExtraArgs = [''-x''] \<rparr>,
                   \<lparr> StepType = ''custom'', StepConfig.ExtraArgs = [] \<rparr>,
                   \<lparr> StepType = ''plan'', StepConfig.ExtraArgs = [] \<rparr>] \<rparr>,
       Apply = \<lparr> StageConfig.Steps =
                  [\<lparr> StepType = ''apply'', StepConfig.ExtraArgs = [''-auto-approve''] \<rparr>] \<rparr> \<rparr>"

definition example_projects :: "ProjectConfig list" where
  "example_projects =
     [\<lparr> Dir = ''other'', ProjectConfig.Workspace = ''default'', Workflow = ''custom1'' \<rparr>,
      \<lparr> Dir = ''proj'', ProjectConfig.Workspace = ''default'', Workflow = ''custom1'' \<rparr>,
      \<lparr> Dir = ''proj'', ProjectConfig.Workspace = ''default'', Workflow = ''missing'' \<rparr>,
      \<lparr> Dir = ''proj'', ProjectConfig.Workspace = ''staging'', Workflow = ''missing'' \<rparr>,
      \<lparr> Dir = ''proj'', ProjectConfig.Workspace = ''bare'', Workflow = [] \<rparr>]"

text \<open>A list of projects whose second and third entries have no \<^verbatim>\<open>dir\<close>.\<close>

definition example_no_dir :: "ProjectConfig list" where
  "example_no_dir =
     [\<lparr> Dir = ''proj'', ProjectConfig.Workspace = ''default'', Workflow = [] \<rparr>,
      \<lparr> Dir = [], ProjectConfig.Workspace = ''default'', Workflow = [] \<rparr>,
      \<lparr> Dir = [], ProjectConfig.Workspace = ''staging'', Workflow = [] \<rparr>]"

definition example_config :: RepoConfig where
  "example_config =
     \<lparr> Version = 2, Projects = example_projects, Workflows = [''custom1'' \<mapsto> example_workflow] \<rparr>"

definition example_reader :: "(nat, nat) Reader" where
  "example_reader = \<lparr> Reader.TerraformExecutor = 1, DefaultTFVersion = 11 \<rparr>"

text \<open>The metadata of a call for \<^verbatim>\<open>proj\<close> in the example repository, by the user \<^verbatim>\<open>lkysow\<close>
  with the logger \<open>0\<close> and no extra comment arguments.\<close>

definition example_meta :: "string \<Rightarrow> (nat, nat, nat) StepMeta" where
  "example_meta workspace =
     \<lparr> Log = 0, StepMeta.Workspace = workspace, AbsolutePath = ''/repo/proj'',
       DirRelativeToRepoRoot = ''proj'', TerraformVersion = 11,
       StepMeta.TerraformExecutor = 1, ExtraCommentArgs = [], Username = ''lkysow'' \<rparr>"

text \<open>The example repository in another state of the file system: every other file exists.\<close>

definition example_env_other :: "RepoConfig \<Rightarrow> Env" where
  "example_env_other config =
     (example_env config)
       \<lparr> ioutil_ReadFile := (\<lambda>name. if name = ''/repo/atlantis.yaml'' then Inr ''version: 2''
                                 else Inr ''resource {}'') \<rparr>"

section \<open>Properties\<close>

subsection \<open>The loops as list functions\<close>

lemma buildSteps_append:
  "buildSteps meta stepsConfig steps = steps @ map (newStep meta) stepsConfig"
  by (induction stepsConfig arbitrary: steps) simp_all

lemma buildSteps_map: "buildSteps meta stepsConfig [] = map (newStep meta) stepsConfig"
  by (simp add: buildSteps_append)

lemma scanProjects_find:
  "scanProjects env r stageName log repoDir workspace relProjectPath extraCommentArgs username
       defaults workflows ps =
     (case firstProject relProjectPath workspace ps of
        None \<Rightarrow> ([], Inl (Errorf ''no project with dir %q and workspace %q defined''
                           [S relProjectPath, S workspace]))
      | Some p \<Rightarrow> buildProject env r stageName log repoDir workspace relProjectPath
                    extraCommentArgs username defaults workflows p)"
  by (induction ps) simp_all

lemma BuildStage_config:
  "ReadConfig env repoDir = Inr (Some config) \<Longrightarrow>
   BuildStage env r stageName log repoDir workspace relProjectPath extraCommentArgs username
       defaults =
     scanProjects env r stageName log repoDir workspace relProjectPath extraCommentArgs
       username defaults (Workflows config) (Projects config)"
  by (simp add: BuildStage_def)

lemma validateProjects_first:
  "\<forall>q \<in> set ps1. Dir q \<noteq> [] \<Longrightarrow> Dir p = [] \<Longrightarrow>
   validateProjects i (ps1 @ p # ps2) =
     Some (Errorf ''project at index %d invalid: dir key must be set and non-empty''
             [D (i + length ps1)])"
  by (induction ps1 arbitrary: i) simp_all

lemma validateProjects_ok:
  "\<forall>q \<in> set ps. Dir q \<noteq> [] \<Longrightarrow> validateProjects i ps = None"
  by (induction ps arbitrary: i) simp_all

subsection \<open>The example repository\<close>

lemma example_ReadConfig:
  "Version config = 2 \<Longrightarrow> Projects config = example_projects \<Longrightarrow>
   ReadConfig (example_env config) ''/repo'' = Inr (Some config)"
  by (simp add: ReadConfig_def ParseAndValidate_def example_env_def example_Join_def
      AtlantisYAMLFilename_def example_projects_def)

lemma example_buildMeta:
  "buildMeta (example_env config) example_reader 0 ''/repo'' workspace ''proj'' [] ''lkysow'' =
     example_meta workspace"
  by (simp add: buildMeta_def example_env_def example_Join_def example_reader_def
      example_meta_def)

lemma example_ReadConfig_config:
  "ReadConfig (example_env example_config) ''/repo'' = Inr (Some example_config)"
  by (rule example_ReadConfig) (simp_all add: example_config_def)

lemma example_no_file:
  "ioutil_ReadFile (example_env config) (filepath_Join (example_env config) [''/elsewhere'', AtlantisYAMLFilename])
     = Inl (PathError True ''no such file or directory'')"
  by (simp add: example_env_def example_Join_def AtlantisYAMLFilename_def)

lemma example_first_default:
  "firstProject ''proj'' ''default'' example_projects =
     Some \<lparr> Dir = ''proj'', ProjectConfig.Workspace = ''default'', Workflow = ''custom1'' \<rparr>"
  by (simp add: example_projects_def)

lemma example_first_staging:
  "firstProject ''proj'' ''staging'' example_projects =
     Some \<lparr> Dir = ''proj'', ProjectConfig.Workspace = ''staging'', Workflow = ''missing'' \<rparr>"
  by (simp add: example_projects_def)

lemma example_first_bare:
  "firstProject ''proj'' ''bare'' example_projects =
     Some \<lparr> Dir = ''proj'', ProjectConfig.Workspace = ''bare'', Workflow = [] \<rparr>"
  by (simp add: example_projects_def)

lemma example_first_none:
  "firstProject ''proj'' ''production'' example_projects = None"
  by (simp add: example_projects_def)

lemma example_workflow_custom1: "Workflows example_config ''custom1'' = Some example_workflow"
  by (simp add: example_config_def)

lemma example_first_default_config:
  "firstProject ''proj'' ''default'' (Projects example_config) =
     Some \<lparr> Dir = ''proj'', ProjectConfig.Workspace = ''default'', Workflow = ''custom1'' \<rparr>"
  using example_first_default by (simp add: example_config_def)

lemma example_plan_steps:
  "map (newStep meta) (StageConfig.Steps (Plan example_workflow)) =
     [Some (InitStep meta [''-x'']), None, Some (PlanStep meta [])]"
  by (simp add: example_workflow_def newStep_def)

lemma example_apply_steps:
  "map (newStep meta) (StageConfig.Steps (Apply example_workflow)) =
     [Some (ApplyStep meta [''-auto-approve''])]"
  by (simp add: example_workflow_def newStep_def)

subsection \<open>The branches of BuildStage\<close>

lemma BuildStage_workflow:
  assumes "ReadConfig env repoDir = Inr (Some config)"
    and "firstProject relProjectPath workspace (Projects config) = Some p"
    and "Workflow p \<noteq> []"
    and "Workflows config (Workflow p) = Some workflow"
  shows "BuildStage env r stageName log repoDir workspace relProjectPath extraCommentArgs
           username defaults =
         ([], Inr (map (newStep (buildMeta env r log repoDir workspace relProjectPath
                                   extraCommentArgs username))
                     (if stageName = PlanStageName then StageConfig.Steps (Plan workflow)
                      else StageConfig.Steps (Apply workflow))))"
  using assms
  by (simp add: BuildStage_config scanProjects_find buildProject_def buildSteps_map)

lemma BuildStage_no_workflow:
  assumes "ReadConfig env repoDir = Inr (Some config)"
    and "firstProject relProjectPath workspace (Projects config) = Some p"
    and "Workflow p = []"
  shows "snd (BuildStage env r stageName log repoDir workspace relProjectPath extraCommentArgs
           username defaults) = Inr defaults"
  using assms
  by (simp add: BuildStage_config scanProjects_find buildProject_def)

lemma BuildStage_no_file:
  assumes "ReadConfig env repoDir = Inr None"
  shows "snd (BuildStage env r stageName log repoDir workspace relProjectPath extraCommentArgs
           username defaults) = Inr defaults"
  using assms by (simp add: BuildStage_def)

lemma BuildPlanStage_steps:
  "snd (BuildStage env r PlanStageName log repoDir workspace relProjectPath extraCommentArgs
      username (defaultPlanSteps env r log repoDir workspace relProjectPath extraCommentArgs
      username)) = Inr steps \<Longrightarrow>
   snd (BuildPlanStage env r log repoDir workspace relProjectPath extraCommentArgs username) =
     Inr \<lparr> PlanStage.Steps = steps \<rparr>"
  by (auto simp add: BuildPlanStage_def Let_def split: prod.splits sum.splits)

lemma BuildApplyStage_steps:
  "snd (BuildStage env r ApplyStageName log repoDir workspace relProjectPath extraCommentArgs
      username (defaultApplySteps env r log repoDir workspace relProjectPath extraCommentArgs
      username)) = Inr steps \<Longrightarrow>
   snd (BuildApplyStage env r log repoDir workspace relProjectPath extraCommentArgs username) =
     Inr \<lparr> ApplyStage.Steps = steps \<rparr>"
  by (auto simp add: BuildApplyStage_def Let_def split: prod.splits sum.splits)

lemma firstProject_append:
  "\<forall>q \<in> set ps1. \<not> (Dir q = relProjectPath \<and> ProjectConfig.Workspace q = workspace) \<Longrightarrow>
   Dir p = relProjectPath \<Longrightarrow> ProjectConfig.Workspace p = workspace \<Longrightarrow>
   firstProject relProjectPath workspace (ps1 @ p # ps2) = Some p"
  by (induction ps1) auto

lemma newStep_None: "newStep meta stepConfig = None \<longleftrightarrow> \<not> recognized stepConfig"
  by (simp add: newStep_def recognized_def)

lemma newStep_Meta: "newStep meta stepConfig = Some step \<Longrightarrow> Meta step = meta"
  by (auto simp add: newStep_def split: if_splits)

lemma length_filter_newStep:
  "length (filter (\<lambda>step. step \<noteq> None) (map (newStep meta) stepsConfig)) =
   length (filter recognized stepsConfig)"
proof (induction stepsConfig)
  case Nil
  show ?case by simp
next
  case (Cons stepConfig rest)
  show ?case
  proof (cases "recognized stepConfig")
    case True
    then have "newStep meta stepConfig \<noteq> None"
      by (simp add: newStep_None)
    with True Cons show ?thesis by simp
  next
    case False
    then have "newStep meta stepConfig = None"
      by (simp add: newStep_None)
    with False Cons show ?thesis by simp
  qed
qed

lemma example_BuildStage_plan:
  "BuildStage (example_env example_config) example_reader ''plan'' (0::nat) ''/repo''
       ''default'' ''proj'' [] ''lkysow'' defaults =
     ([], Inr [Some (InitStep (example_meta ''default'') [''-x'']), None,
               Some (PlanStep (example_meta ''default'') [])])"
  using BuildStage_workflow [OF example_ReadConfig_config example_first_default_config,
      where r = example_reader and stageName = "''plan''" and log = "0::nat"
        and extraCommentArgs = "[]" and username = "''lkysow''" and defaults = defaults]
  by (simp add: example_workflow_custom1 example_buildMeta example_plan_steps PlanStageName_def)

section \<open>The claims\<close>

subsection \<open>Step types without a case\<close>

text \<open>
  Claim C1, as stated: a step configuration whose step type is not \<^verbatim>\<open>init\<close>, \<^verbatim>\<open>plan\<close> or
  \<^verbatim>\<open>apply\<close> is omitted from the returned list, which has one step for every recognized
  entry. The loop appends the variable \<^verbatim>\<open>step\<close> in every round, also when no case of the
  \<^verbatim>\<open>switch\<close> assigned it: in the example repository the plan stage of \<^verbatim>\<open>custom1\<close> has the
  entries \<^verbatim>\<open>init\<close>, \<^verbatim>\<open>custom\<close>, \<^verbatim>\<open>plan\<close>, and the returned list has three elements, the
  second one nil, not the two steps of the recognized entries.
\<close>

theorem BuildStage_unrecognized_omitted_counterexample:
  "BuildStage (example_env example_config) example_reader ''plan'' (0::nat) ''/repo''
       ''default'' ''proj'' [] ''lkysow'' [] =
     ([], Inr [Some (InitStep (example_meta ''default'') [''-x'']), None,
               Some (PlanStep (example_meta ''default'') [])])
   \<and> filter recognized (StageConfig.Steps (Plan example_workflow)) =
       [\<lparr> StepType = ''init'', StepConfig.ExtraArgs = [''-x''] \<rparr>,
        \<lparr> StepType = ''plan'', StepConfig.ExtraArgs = [] \<rparr>]
   \<and> snd (BuildStage (example_env example_config) example_reader ''plan'' (0::nat) ''/repo''
       ''default'' ''proj'' [] ''lkysow'' []) \<noteq>
     Inr [Some (InitStep (example_meta ''default'') [''-x'']),
          Some (PlanStep (example_meta ''default'') [])]"
  by (simp add: example_BuildStage_plan example_workflow_def recognized_def)

text \<open>
  Claim C1, amended. For a project that names a workflow that exists, \<^verbatim>\<open>BuildStage\<close> raises
  no error and returns a list with exactly one element for every step configuration of
  the stage, in the declared order; the element is nil exactly when the step type of the
  entry is not \<^verbatim>\<open>init\<close>, \<^verbatim>\<open>plan\<close> or \<^verbatim>\<open>apply\<close> (the reserved \<^verbatim>\<open>custom\<close> included): no step
  instance is produced for such an entry, and its position is kept. Consequently the
  elements that are not nil are as many as the recognized entries.
\<close>

theorem BuildStage_unrecognized_nil:
  assumes "ReadConfig env repoDir = Inr (Some config)"
    and "firstProject relProjectPath workspace (Projects config) = Some p"
    and "Workflow p \<noteq> []"
    and "Workflows config (Workflow p) = Some workflow"
    and "stepsConfig = (if stageName = PlanStageName then StageConfig.Steps (Plan workflow)
                        else StageConfig.Steps (Apply workflow))"
  shows "\<exists>steps.
           BuildStage env r stageName log repoDir workspace relProjectPath extraCommentArgs
             username defaults = ([], Inr steps)
         \<and> length steps = length stepsConfig
         \<and> (\<forall>i < length stepsConfig.
               steps ! i = None \<longleftrightarrow>
               StepType (stepsConfig ! i) \<notin> {''init'', ''plan'', ''apply''})
         \<and> length (filter (\<lambda>step. step \<noteq> None) steps) =
             length (filter (\<lambda>stepConfig. StepType stepConfig \<in> {''init'', ''plan'', ''apply''})
                       stepsConfig)"
proof -
  let ?meta = "buildMeta env r log repoDir workspace relProjectPath extraCommentArgs username"
  have res: "BuildStage env r stageName log repoDir workspace relProjectPath extraCommentArgs
               username defaults = ([], Inr (map (newStep ?meta) stepsConfig))"
    by (simp add: BuildStage_workflow [OF assms(1-4)] assms(5))
  have nil: "\<forall>i < length stepsConfig.
               map (newStep ?meta) stepsConfig ! i = None \<longleftrightarrow>
               StepType (stepsConfig ! i) \<notin> {''init'', ''plan'', ''apply''}"
    by (simp add: newStep_None recognized_def)
  have count: "length (filter (\<lambda>step. step \<noteq> None) (map (newStep ?meta) stepsConfig)) =
             length (filter (\<lambda>stepConfig. StepType stepConfig \<in> {''init'', ''plan'', ''apply''})
                       stepsConfig)"
    using length_filter_newStep [of ?meta stepsConfig] by (simp add: recognized_def [abs_def])
  from res nil count show ?thesis
    by simp
qed

theorem BuildStage_unrecognized_nil_witness:
  "ReadConfig (example_env example_config) ''/repo'' = Inr (Some example_config)
   \<and> firstProject ''proj'' ''default'' (Projects example_config) =
       Some \<lparr> Dir = ''proj'', ProjectConfig.Workspace = ''default'', Workflow = ''custom1'' \<rparr>
   \<and> Workflows example_config ''custom1'' = Some example_workflow
   \<and> map StepType (StageConfig.Steps (Plan example_workflow)) = [''init'', ''custom'', ''plan'']
   \<and> BuildStage (example_env example_config) example_reader ''plan'' (0::nat) ''/repo''
        ''default'' ''proj'' [] ''lkysow'' [] =
       ([], Inr [Some (InitStep (example_meta ''default'') [''-x'']), None,
                 Some (PlanStep (example_meta ''default'') [])])"
proof -
  have e: "Workflow \<lparr> Dir = ''proj'', ProjectConfig.Workspace = ''default'',
                      Workflow = ''custom1'' \<rparr> \<noteq> []"
    by simp
  have w: "Workflows example_config
             (Workflow \<lparr> Dir = ''proj'', ProjectConfig.Workspace = ''default'',
                         Workflow = ''custom1'' \<rparr>) = Some example_workflow"
    by (simp add: example_workflow_custom1)
  have s: "StageConfig.Steps (Plan example_workflow) =
             (if ''plan'' = PlanStageName then StageConfig.Steps (Plan example_workflow)
              else StageConfig.Steps (Apply example_workflow))"
    by (simp add: PlanStageName_def)
  have t: "map StepType (StageConfig.Steps (Plan example_workflow)) =
             [''init'', ''custom'', ''plan'']"
    by (simp add: example_workflow_def)
  obtain steps where
    b: "BuildStage (example_env example_config) example_reader ''plan'' (0::nat) ''/repo''
          ''default'' ''proj'' [] ''lkysow'' [] = ([], Inr steps)"
    and n: "\<forall>i < length (StageConfig.Steps (Plan example_workflow)).
              steps ! i = None \<longleftrightarrow>
              StepType (StageConfig.Steps (Plan example_workflow) ! i)
                \<notin> {''init'', ''plan'', ''apply''}"
    using BuildStage_unrecognized_nil [OF example_ReadConfig_config
        example_first_default_config e w s, where r = example_reader and log = "0::nat"
        and extraCommentArgs = "[]" and username = "''lkysow''" and defaults = "[]"]
    by blast
  from n have "steps ! 1 = None"
    by (simp add: example_workflow_def)
  with b show ?thesis
    using example_ReadConfig_config example_first_default_config example_workflow_custom1 t
      example_BuildStage_plan [of "[]"]
    by simp
qed

subsection \<open>No configuration file\<close>

text \<open>
  Claim C2. For every checkout whose \<^verbatim>\<open>atlantis.yaml\<close> does not exist (reading it fails with
  an error for which \<^verbatim>\<open>os.IsNotExist\<close> holds), \<^verbatim>\<open>ReadConfig\<close> returns no configuration and no
  error, \<^verbatim>\<open>BuildStage\<close> returns the defaults it was given, whatever the stage, and so the
  plan stage is the init step followed by the plan step and the apply stage is the
  apply step alone, each without extra arguments and with the metadata of the call.
\<close>

theorem no_config_file_defaults:
  assumes "ioutil_ReadFile env (filepath_Join env [repoDir, AtlantisYAMLFilename]) = Inl err"
    and "IsNotExist err"
  shows "ReadConfig env repoDir = Inr None
       \<and> snd (BuildStage env r stageName log repoDir workspace relProjectPath extraCommentArgs
                username defaults) = Inr defaults
       \<and> snd (BuildPlanStage env r log repoDir workspace relProjectPath extraCommentArgs
                username) =
           Inr \<lparr> PlanStage.Steps =
                   [Some (InitStep (buildMeta env r log repoDir workspace relProjectPath
                                      extraCommentArgs username) []),
                    Some (PlanStep (buildMeta env r log repoDir workspace relProjectPath
                                      extraCommentArgs username) [])] \<rparr>
       \<and> snd (BuildApplyStage env r log repoDir workspace relProjectPath extraCommentArgs
                username) =
           Inr \<lparr> ApplyStage.Steps =
                   [Some (ApplyStep (buildMeta env r log repoDir workspace relProjectPath
                                       extraCommentArgs username) [])] \<rparr>"
proof -
  from assms have none: "ReadConfig env repoDir = Inr None"
    by (simp add: ReadConfig_def)
  have stage: "snd (BuildStage env r stageName log repoDir workspace relProjectPath
                extraCommentArgs username defaults) = Inr defaults"
    for stageName and defaults :: "('a, 'b, 'c) Step list"
    by (rule BuildStage_no_file [OF none])
  have plan: "snd (BuildPlanStage env r log repoDir workspace relProjectPath extraCommentArgs
                username) =
           Inr \<lparr> PlanStage.Steps = defaultPlanSteps env r log repoDir workspace relProjectPath
                   extraCommentArgs username \<rparr>"
    by (rule BuildPlanStage_steps) (rule stage)
  have ap: "snd (BuildApplyStage env r log repoDir workspace relProjectPath extraCommentArgs
                username) =
           Inr \<lparr> ApplyStage.Steps = defaultApplySteps env r log repoDir workspace relProjectPath
                   extraCommentArgs username \<rparr>"
    by (rule BuildApplyStage_steps) (rule stage)
  from none stage plan ap show ?thesis
    by (simp add: defaultPlanSteps_def defaultApplySteps_def Let_def)
qed

theorem no_config_file_defaults_witness:
  "ioutil_ReadFile (example_env example_config)
       (filepath_Join (example_env example_config) [''/elsewhere'', AtlantisYAMLFilename]) =
     Inl (PathError True ''no such file or directory'')
   \<and> IsNotExist (PathError True ''no such file or directory'')
   \<and> ReadConfig (example_env example_config) ''/elsewhere'' = Inr None
   \<and> snd (BuildPlanStage (example_env example_config) example_reader (0::nat) ''/elsewhere''
            ''default'' ''proj'' [] ''lkysow'') =
       Inr \<lparr> PlanStage.Steps =
               [Some (InitStep ((example_meta ''default'')\<lparr>AbsolutePath := ''/elsewhere/proj''\<rparr>) []),
                Some (PlanStep ((example_meta ''default'')\<lparr>AbsolutePath := ''/elsewhere/proj''\<rparr>) [])] \<rparr>
   \<and> snd (BuildApplyStage (example_env example_config) example_reader (0::nat) ''/elsewhere''
            ''default'' ''proj'' [] ''lkysow'') =
       Inr \<lparr> ApplyStage.Steps =
               [Some (ApplyStep ((example_meta ''default'')\<lparr>AbsolutePath := ''/elsewhere/proj''\<rparr>) [])] \<rparr>"
proof -
  have m: "buildMeta (example_env example_config) example_reader (0::nat) ''/elsewhere''
             ''default'' ''proj'' [] ''lkysow'' =
           (example_meta ''default'')\<lparr>AbsolutePath := ''/elsewhere/proj''\<rparr>"
    by (simp add: buildMeta_def example_env_def example_Join_def example_reader_def
        example_meta_def)
  show ?thesis
    using no_config_file_defaults [OF example_no_file, of example_config example_reader
        "''plan''" "0::nat" "''default''" "''proj''" "[]" "''lkysow''" "[]"]
      example_no_file [of example_config]
    by (simp add: m)
qed

subsection \<open>Validation\<close>

text \<open>
  Claim C3. For every configuration that deserializes and whose version is not 2,
  \<^verbatim>\<open>ParseAndValidate\<close> fails with exactly the error message
  \<^verbatim>\<open>unknown version: must have "version: 2" set\<close>, whatever the rest of the configuration
  holds: its projects and workflows are not looked at.
\<close>

theorem ParseAndValidate_version:
  assumes "yaml_UnmarshalStrict env configData = Inr repoConfig"
    and "Version repoConfig \<noteq> 2"
  shows \<open>ParseAndValidate env configData =
           Inl (New ''unknown version: must have "version: 2" set'')\<close>
  using assms by (simp add: ParseAndValidate_def)

theorem ParseAndValidate_version_witness:
  \<open>yaml_UnmarshalStrict (example_env (example_config\<lparr>Version := 3\<rparr>)) ''version: 3'' =
       Inr (example_config\<lparr>Version := 3\<rparr>)
   \<and> Version (example_config\<lparr>Version := 3\<rparr>) \<noteq> 2
   \<and> ParseAndValidate (example_env (example_config\<lparr>Version := 3\<rparr>)) ''version: 3'' =
       Inl (New ''unknown version: must have "version: 2" set'')\<close>
proof -
  have u: "yaml_UnmarshalStrict (example_env (example_config\<lparr>Version := 3\<rparr>)) ''version: 3'' =
       Inr (example_config\<lparr>Version := 3\<rparr>)"
    by (simp add: example_env_def)
  have v: "Version (example_config\<lparr>Version := 3\<rparr>) \<noteq> 2"
    by simp
  show ?thesis
    using u v ParseAndValidate_version [OF u v] by simp
qed

text \<open>
  Claim C4. The validation of a deserialized configuration runs in a fixed order and
  returns at the first failure: a version other than 2 fails on the version, before
  the projects are looked at; with version 2, an empty list of projects fails with
  exactly \<^verbatim>\<open>'projects' key must exist and contain at least one element\<close>; a list with a
  project of empty \<^verbatim>\<open>dir\<close> fails naming the index of the first such project, whatever
  follows it; and a non-empty list whose projects all have a \<^verbatim>\<open>dir\<close> is accepted.
\<close>

theorem ParseAndValidate_projects:
  assumes "yaml_UnmarshalStrict env configData = Inr repoConfig"
  shows \<open>(Version repoConfig \<noteq> 2 \<longrightarrow>
            ParseAndValidate env configData =
              Inl (New ''unknown version: must have "version: 2" set''))
       \<and> (Version repoConfig = 2 \<longrightarrow> Projects repoConfig = [] \<longrightarrow>
            ParseAndValidate env configData =
              Inl (New '''projects' key must exist and contain at least one element''))
       \<and> (Version repoConfig = 2 \<longrightarrow> Projects repoConfig = ps1 @ p # ps2 \<longrightarrow>
            (\<forall>q \<in> set ps1. Dir q \<noteq> []) \<longrightarrow> Dir p = [] \<longrightarrow>
            ParseAndValidate env configData =
              Inl (Errorf ''project at index %d invalid: dir key must be set and non-empty''
                     [D (length ps1)]))
       \<and> (Version repoConfig = 2 \<longrightarrow> Projects repoConfig \<noteq> [] \<longrightarrow>
            (\<forall>q \<in> set (Projects repoConfig). Dir q \<noteq> []) \<longrightarrow>
            ParseAndValidate env configData = Inr repoConfig)\<close>
  using assms
  by (simp add: ParseAndValidate_def validateProjects_first [where i = 0, simplified]
      validateProjects_ok)

theorem ParseAndValidate_projects_witness:
  \<open>ParseAndValidate (example_env (example_config\<lparr>Projects := []\<rparr>)) ''version: 2'' =
       Inl (New '''projects' key must exist and contain at least one element'')
   \<and> ParseAndValidate (example_env (example_config\<lparr>Projects := example_no_dir\<rparr>))
         ''version: 2'' =
       Inl (Errorf ''project at index %d invalid: dir key must be set and non-empty'' [D 1])
   \<and> ParseAndValidate (example_env example_config) ''version: 2'' = Inr example_config\<close>
proof -
  have a: \<open>ParseAndValidate (example_env (example_config\<lparr>Projects := []\<rparr>)) ''version: 2'' =
       Inl (New '''projects' key must exist and contain at least one element'')\<close>
    using ParseAndValidate_projects
      [of "example_env (example_config\<lparr>Projects := []\<rparr>)" "''version: 2''"
          "example_config\<lparr>Projects := []\<rparr>"]
    by (simp add: example_env_def example_config_def)
  have b: \<open>ParseAndValidate (example_env (example_config\<lparr>Projects := example_no_dir\<rparr>))
         ''version: 2'' =
       Inl (Errorf ''project at index %d invalid: dir key must be set and non-empty'' [D 1])\<close>
    using ParseAndValidate_projects
      [of "example_env (example_config\<lparr>Projects := example_no_dir\<rparr>)" "''version: 2''"
          "example_config\<lparr>Projects := example_no_dir\<rparr>"
          "[\<lparr>Dir = ''proj'', ProjectConfig.Workspace = ''default'', Workflow = []\<rparr>]"
          "\<lparr>Dir = [], ProjectConfig.Workspace = ''default'', Workflow = []\<rparr>"
          "[\<lparr>Dir = [], ProjectConfig.Workspace = ''staging'', Workflow = []\<rparr>]"]
    by (simp add: example_env_def example_config_def example_no_dir_def)
  have c: \<open>ParseAndValidate (example_env example_config) ''version: 2'' = Inr example_config\<close>
    using ParseAndValidate_projects
      [of "example_env example_config" "''version: 2''" example_config]
    by (simp add: example_env_def example_config_def example_projects_def)
  from a b c show ?thesis by simp
qed

subsection \<open>The lookup of the project and of the workflow\<close>

text \<open>
  Claim C5. When several projects of a configuration have the requested directory and
  workspace, \<^verbatim>\<open>BuildStage\<close> uses the first of them in the order of the file: its result is
  the one of the body of the loop for that project, and it is the same for every other
  validated configuration with the same workflows whose first such project is this
  one, whatever projects follow it.
\<close>

theorem BuildStage_first_match:
  assumes "ReadConfig env repoDir = Inr (Some config)"
    and "ReadConfig env' repoDir = Inr (Some config')"
    and "filepath_Join env' = filepath_Join env"
    and "Workflows config' = Workflows config"
    and "Projects config = ps1 @ p # ps2"
    and "Projects config' = ps1' @ p # ps2'"
    and "\<forall>q \<in> set ps1. \<not> (Dir q = relProjectPath \<and> ProjectConfig.Workspace q = workspace)"
    and "\<forall>q \<in> set ps1'. \<not> (Dir q = relProjectPath \<and> ProjectConfig.Workspace q = workspace)"
    and "Dir p = relProjectPath" and "ProjectConfig.Workspace p = workspace"
  shows "BuildStage env r stageName log repoDir workspace relProjectPath extraCommentArgs
           username defaults =
         buildProject env r stageName log repoDir workspace relProjectPath extraCommentArgs
           username defaults (Workflows config) p
       \<and> BuildStage env' r stageName log repoDir workspace relProjectPath extraCommentArgs
           username defaults =
         BuildStage env r stageName log repoDir workspace relProjectPath extraCommentArgs
           username defaults"
proof -
  have f: "firstProject relProjectPath workspace (Projects config) = Some p"
    using assms(5,7,9,10) by (simp add: firstProject_append)
  have f': "firstProject relProjectPath workspace (Projects config') = Some p"
    using assms(6,8,9,10) by (simp add: firstProject_append)
  have m: "buildMeta env' r log repoDir workspace relProjectPath extraCommentArgs username =
           buildMeta env r log repoDir workspace relProjectPath extraCommentArgs username"
    using assms(3) by (simp add: buildMeta_def)
  have b: "buildProject env' r stageName log repoDir workspace relProjectPath extraCommentArgs
             username defaults (Workflows config) p =
           buildProject env r stageName log repoDir workspace relProjectPath extraCommentArgs
             username defaults (Workflows config) p"
    unfolding buildProject_def m by (rule refl)
  show ?thesis
    using f f' b assms(4)
    by (simp add: BuildStage_config [OF assms(1)] BuildStage_config [OF assms(2)]
        scanProjects_find)
qed

theorem BuildStage_first_match_witness:
  "Projects example_config =
     [\<lparr> Dir = ''other'', ProjectConfig.Workspace = ''default'', Workflow = ''custom1'' \<rparr>] @
     \<lparr> Dir = ''proj'', ProjectConfig.Workspace = ''default'', Workflow = ''custom1'' \<rparr> #
     [\<lparr> Dir = ''proj'', ProjectConfig.Workspace = ''default'', Workflow = ''missing'' \<rparr>,
      \<lparr> Dir = ''proj'', ProjectConfig.Workspace = ''staging'', Workflow = ''missing'' \<rparr>,
      \<lparr> Dir = ''proj'', ProjectConfig.Workspace = ''bare'', Workflow = [] \<rparr>]
   \<and> BuildStage (example_env (example_config\<lparr>Projects :=
          [\<lparr> Dir = ''proj'', ProjectConfig.Workspace = ''default'', Workflow = ''custom1'' \<rparr>]\<rparr>))
        example_reader ''plan'' (0::nat) ''/repo'' ''default'' ''proj'' [] ''lkysow'' [] =
     BuildStage (example_env example_config) example_reader ''plan'' (0::nat) ''/repo''
        ''default'' ''proj'' [] ''lkysow'' []"
proof -
  let ?p = "\<lparr> Dir = ''proj'', ProjectConfig.Workspace = ''default'', Workflow = ''custom1'' \<rparr>"
  let ?config' = "example_config\<lparr>Projects := [?p]\<rparr>"
  have c': "ReadConfig (example_env ?config') ''/repo'' = Inr (Some ?config')"
    by (simp add: ReadConfig_def ParseAndValidate_def example_env_def example_Join_def
        AtlantisYAMLFilename_def example_config_def)
  have j: "filepath_Join (example_env ?config') = filepath_Join (example_env example_config)"
    by (simp add: example_env_def)
  have w: "Workflows ?config' = Workflows example_config"
    by simp
  have ps: "Projects example_config =
     [\<lparr> Dir = ''other'', ProjectConfig.Workspace = ''default'', Workflow = ''custom1'' \<rparr>] @
     ?p #
     [\<lparr> Dir = ''proj'', ProjectConfig.Workspace = ''default'', Workflow = ''missing'' \<rparr>,
      \<lparr> Dir = ''proj'', ProjectConfig.Workspace = ''staging'', Workflow = ''missing'' \<rparr>,
      \<lparr> Dir = ''proj'', ProjectConfig.Workspace = ''bare'', Workflow = [] \<rparr>]"
    by (simp add: example_config_def example_projects_def)
  have ps': "Projects ?config' = [] @ ?p # []"
    by simp
  show ?thesis
    using ps BuildStage_first_match [OF example_ReadConfig_config c' j w ps ps',
        where relProjectPath = "''proj''" and workspace = "''default''" and r = example_reader
          and stageName = "''plan''" and log = "0::nat" and extraCommentArgs = "[]"
          and username = "''lkysow''" and defaults = "[]"]
    by simp
qed

text \<open>
  Claim C6. With a configuration present, \<^verbatim>\<open>BuildStage\<close> fails in exactly two cases, and
  returns no steps then: no project has the requested directory and workspace, with
  the error \<^verbatim>\<open>no project with dir %q and workspace %q defined\<close> on the requested values
  (the defaults are not used); or the first such project names a workflow that the
  workflows do not have, with the error \<^verbatim>\<open>no workflow with key %q defined\<close> on that name.
\<close>

theorem BuildStage_lookup_failure:
  assumes "ReadConfig env repoDir = Inr (Some config)"
  shows "(firstProject relProjectPath workspace (Projects config) = None \<longrightarrow>
            BuildStage env r stageName log repoDir workspace relProjectPath extraCommentArgs
              username defaults =
            ([], Inl (Errorf ''no project with dir %q and workspace %q defined''
                        [S relProjectPath, S workspace])))
       \<and> (firstProject relProjectPath workspace (Projects config) = Some p \<longrightarrow>
            Workflow p \<noteq> [] \<longrightarrow> Workflows config (Workflow p) = None \<longrightarrow>
            BuildStage env r stageName log repoDir workspace relProjectPath extraCommentArgs
              username defaults =
            ([], Inl (Errorf ''no workflow with key %q defined'' [S (Workflow p)])))
       \<and> (isl (snd (BuildStage env r stageName log repoDir workspace relProjectPath
                      extraCommentArgs username defaults)) \<longleftrightarrow>
            firstProject relProjectPath workspace (Projects config) = None
            \<or> (\<exists>q. firstProject relProjectPath workspace (Projects config) = Some q
                   \<and> Workflow q \<noteq> [] \<and> Workflows config (Workflow q) = None))"
  by (auto simp add: BuildStage_config [OF assms] scanProjects_find buildProject_def Let_def
      split: option.splits)

theorem BuildStage_lookup_failure_witness:
  "ReadConfig (example_env example_config) ''/repo'' = Inr (Some example_config)
   \<and> firstProject ''proj'' ''production'' (Projects example_config) = None
   \<and> BuildStage (example_env example_config) example_reader ''plan'' (0::nat) ''/repo''
        ''production'' ''proj'' [] ''lkysow'' [] =
       ([], Inl (Errorf ''no project with dir %q and workspace %q defined''
                   [S ''proj'', S ''production'']))
   \<and> firstProject ''proj'' ''staging'' (Projects example_config) =
       Some \<lparr> Dir = ''proj'', ProjectConfig.Workspace = ''staging'', Workflow = ''missing'' \<rparr>
   \<and> Workflows example_config ''missing'' = None
   \<and> BuildStage (example_env example_config) example_reader ''plan'' (0::nat) ''/repo''
        ''staging'' ''proj'' [] ''lkysow'' [] =
       ([], Inl (Errorf ''no workflow with key %q defined'' [S ''missing'']))"
proof -
  have n: "firstProject ''proj'' ''production'' (Projects example_config) = None"
    using example_first_none by (simp add: example_config_def)
  have s: "firstProject ''proj'' ''staging'' (Projects example_config) =
       Some \<lparr> Dir = ''proj'', ProjectConfig.Workspace = ''staging'', Workflow = ''missing'' \<rparr>"
    using example_first_staging by (simp add: example_config_def)
  have w: "Workflows example_config ''missing'' = None"
    by (simp add: example_config_def)
  show ?thesis
    using n s w example_ReadConfig_config
      BuildStage_lookup_failure [OF example_ReadConfig_config,
        where relProjectPath = "''proj''" and workspace = "''production''"
          and r = example_reader and stageName = "''plan''" and log = "0::nat"
          and extraCommentArgs = "[]" and username = "''lkysow''" and defaults = "[]"]
      BuildStage_lookup_failure [OF example_ReadConfig_config,
        where relProjectPath = "''proj''" and workspace = "''staging''"
          and p = "\<lparr> Dir = ''proj'', ProjectConfig.Workspace = ''staging'',
                     Workflow = ''missing'' \<rparr>"
          and r = example_reader and stageName = "''plan''" and log = "0::nat"
          and extraCommentArgs = "[]" and username = "''lkysow''" and defaults = "[]"]
    by simp
qed

subsection \<open>The steps of a workflow\<close>

text \<open>
  Claim C7. For a project that names a workflow that exists, \<^verbatim>\<open>BuildStage\<close> expands the
  step configurations of the requested stage in their declared order: the entry at a
  position with the type \<^verbatim>\<open>init\<close>, \<^verbatim>\<open>plan\<close> or \<^verbatim>\<open>apply\<close> gives, at the same position, the
  step of that variant with the extra arguments of the entry, and every step of the
  result carries the metadata built from the inputs of the call: the logger, the
  workspace, the checkout path joined with the relative path, the relative path, the
  default version and the executor of the reader, the extra comment arguments and the
  user name.
\<close>

theorem BuildStage_workflow_steps:
  assumes "ReadConfig env repoDir = Inr (Some config)"
    and "firstProject relProjectPath workspace (Projects config) = Some p"
    and "Workflow p \<noteq> []"
    and "Workflows config (Workflow p) = Some workflow"
    and "stageName = PlanStageName \<and> stepsConfig = StageConfig.Steps (Plan workflow)
         \<or> stageName = ApplyStageName \<and> stepsConfig = StageConfig.Steps (Apply workflow)"
    and "meta = \<lparr> Log = log, StepMeta.Workspace = workspace,
                   AbsolutePath = filepath_Join env [repoDir, relProjectPath],
                   DirRelativeToRepoRoot = relProjectPath,
                   TerraformVersion = DefaultTFVersion r,
                   StepMeta.TerraformExecutor = Reader.TerraformExecutor r,
                   ExtraCommentArgs = extraCommentArgs, Username = username \<rparr>"
  shows "\<exists>steps.
           BuildStage env r stageName log repoDir workspace relProjectPath extraCommentArgs
             username defaults = ([], Inr steps)
         \<and> length steps = length stepsConfig
         \<and> (\<forall>i < length stepsConfig.
               (StepType (stepsConfig ! i) = ''init'' \<longrightarrow>
                  steps ! i = Some (InitStep meta (StepConfig.ExtraArgs (stepsConfig ! i))))
             \<and> (StepType (stepsConfig ! i) = ''plan'' \<longrightarrow>
                  steps ! i = Some (PlanStep meta (StepConfig.ExtraArgs (stepsConfig ! i))))
             \<and> (StepType (stepsConfig ! i) = ''apply'' \<longrightarrow>
                  steps ! i = Some (ApplyStep meta (StepConfig.ExtraArgs (stepsConfig ! i)))))
         \<and> (\<forall>step. Some step \<in> set steps \<longrightarrow> Meta step = meta)"
proof -
  have sel: "(if stageName = PlanStageName then StageConfig.Steps (Plan workflow)
              else StageConfig.Steps (Apply workflow)) = stepsConfig"
    using assms(5) by (auto simp add: PlanStageName_def ApplyStageName_def)
  have res: "BuildStage env r stageName log repoDir workspace relProjectPath extraCommentArgs
               username defaults = ([], Inr (map (newStep meta) stepsConfig))"
    by (simp add: BuildStage_workflow [OF assms(1-4)] sel assms(6) buildMeta_def)
  have variant: "\<forall>i < length stepsConfig.
               (StepType (stepsConfig ! i) = ''init'' \<longrightarrow>
                  map (newStep meta) stepsConfig ! i =
                    Some (InitStep meta (StepConfig.ExtraArgs (stepsConfig ! i))))
             \<and> (StepType (stepsConfig ! i) = ''plan'' \<longrightarrow>
                  map (newStep meta) stepsConfig ! i =
                    Some (PlanStep meta (StepConfig.ExtraArgs (stepsConfig ! i))))
             \<and> (StepType (stepsConfig ! i) = ''apply'' \<longrightarrow>
                  map (newStep meta) stepsConfig ! i =
                    Some (ApplyStep meta (StepConfig.ExtraArgs (stepsConfig ! i))))"
    by (simp add: newStep_def)
  have metas: "\<forall>step. Some step \<in> set (map (newStep meta) stepsConfig) \<longrightarrow> Meta step = meta"
    by (auto dest: newStep_Meta [OF sym])
  from res variant metas show ?thesis
    by simp
qed

theorem BuildStage_workflow_steps_witness:
  "ReadConfig (example_env example_config) ''/repo'' = Inr (Some example_config)
   \<and> firstProject ''proj'' ''default'' (Projects example_config) =
       Some \<lparr> Dir = ''proj'', ProjectConfig.Workspace = ''default'', Workflow = ''custom1'' \<rparr>
   \<and> Workflows example_config ''custom1'' = Some example_workflow
   \<and> buildMeta (example_env example_config) example_reader (0::nat) ''/repo'' ''default''
        ''proj'' [] ''lkysow'' = example_meta ''default''
   \<and> BuildStage (example_env example_config) example_reader ''apply'' (0::nat) ''/repo''
        ''default'' ''proj'' [] ''lkysow'' [] =
       ([], Inr [Some (ApplyStep (example_meta ''default'') [''-auto-approve''])])"
proof -
  have e: "Workflow \<lparr> Dir = ''proj'', ProjectConfig.Workspace = ''default'',
                      Workflow = ''custom1'' \<rparr> \<noteq> []"
    by simp
  have w: "Workflows example_config
             (Workflow \<lparr> Dir = ''proj'', ProjectConfig.Workspace = ''default'',
                         Workflow = ''custom1'' \<rparr>) = Some example_workflow"
    by (simp add: example_workflow_custom1)
  have s: "''apply'' = PlanStageName
             \<and> StageConfig.Steps (Apply example_workflow) = StageConfig.Steps (Plan example_workflow)
         \<or> ''apply'' = ApplyStageName
             \<and> StageConfig.Steps (Apply example_workflow) = StageConfig.Steps (Apply example_workflow)"
    by (simp add: ApplyStageName_def)
  have m: "example_meta ''default'' =
             \<lparr> Log = 0, StepMeta.Workspace = ''default'',
               AbsolutePath = filepath_Join (example_env example_config) [''/repo'', ''proj''],
               DirRelativeToRepoRoot = ''proj'',
               TerraformVersion = DefaultTFVersion example_reader,
               StepMeta.TerraformExecutor = Reader.TerraformExecutor example_reader,
               ExtraCommentArgs = [], Username = ''lkysow'' \<rparr>"
    by (simp add: example_meta_def example_env_def example_Join_def example_reader_def)
  obtain steps where
    b: "BuildStage (example_env example_config) example_reader ''apply'' (0::nat) ''/repo''
          ''default'' ''proj'' [] ''lkysow'' [] = ([], Inr steps)"
    and l: "length steps = length (StageConfig.Steps (Apply example_workflow))"
    and v: "\<forall>i < length (StageConfig.Steps (Apply example_workflow)).
              StepType (StageConfig.Steps (Apply example_workflow) ! i) = ''apply'' \<longrightarrow>
              steps ! i = Some (ApplyStep (example_meta ''default'')
                (StepConfig.ExtraArgs (StageConfig.Steps (Apply example_workflow) ! i)))"
    using BuildStage_workflow_steps [OF example_ReadConfig_config example_first_default_config
        e w s m, where defaults = "[]"]
    by blast
  from l have "length steps = 1"
    by (simp add: example_workflow_def)
  then obtain step where one: "steps = [step]"
    by (cases steps) simp_all
  from v have "steps ! 0 = Some (ApplyStep (example_meta ''default'') [''-auto-approve''])"
    by (simp add: example_workflow_def)
  with one have "steps = [Some (ApplyStep (example_meta ''default'') [''-auto-approve''])]"
    by simp
  with b show ?thesis
    using example_ReadConfig_config example_first_default_config example_workflow_custom1
      example_buildMeta [of example_config "''default''"]
    by simp
qed

text \<open>
  Claim C8. When the first project with the requested directory and workspace has an
  empty workflow, \<^verbatim>\<open>BuildStage\<close> does not fail and returns the defaults it was given, so
  the plan stage is the init step followed by the plan step and the apply stage the
  apply step; the workflows of the configuration are not looked at and may be empty.
\<close>

theorem BuildStage_empty_workflow:
  assumes "ReadConfig env repoDir = Inr (Some config)"
    and "firstProject relProjectPath workspace (Projects config) = Some p"
    and "Workflow p = []"
  shows "snd (BuildStage env r stageName log repoDir workspace relProjectPath extraCommentArgs
                username defaults) = Inr defaults
       \<and> snd (BuildPlanStage env r log repoDir workspace relProjectPath extraCommentArgs
                username) =
           Inr \<lparr> PlanStage.Steps =
                   [Some (InitStep (buildMeta env r log repoDir workspace relProjectPath
                                      extraCommentArgs username) []),
                    Some (PlanStep (buildMeta env r log repoDir workspace relProjectPath
                                      extraCommentArgs username) [])] \<rparr>
       \<and> snd (BuildApplyStage env r log repoDir workspace relProjectPath extraCommentArgs
                username) =
           Inr \<lparr> ApplyStage.Steps =
                   [Some (ApplyStep (buildMeta env r log repoDir workspace relProjectPath
                                       extraCommentArgs username) [])] \<rparr>"
proof -
  have stage: "snd (BuildStage env r stageName log repoDir workspace relProjectPath
                extraCommentArgs username defaults) = Inr defaults"
    for stageName and defaults :: "('a, 'b, 'c) Step list"
    by (rule BuildStage_no_workflow [OF assms])
  have plan: "snd (BuildPlanStage env r log repoDir workspace relProjectPath extraCommentArgs
                username) =
           Inr \<lparr> PlanStage.Steps = defaultPlanSteps env r log repoDir workspace relProjectPath
                   extraCommentArgs username \<rparr>"
    by (rule BuildPlanStage_steps) (rule stage)
  have ap: "snd (BuildApplyStage env r log repoDir workspace relProjectPath extraCommentArgs
                username) =
           Inr \<lparr> ApplyStage.Steps = defaultApplySteps env r log repoDir workspace relProjectPath
                   extraCommentArgs username \<rparr>"
    by (rule BuildApplyStage_steps) (rule stage)
  from stage plan ap show ?thesis
    by (simp add: defaultPlanSteps_def defaultApplySteps_def Let_def)
qed

theorem BuildStage_empty_workflow_witness:
  "ReadConfig (example_env (example_config\<lparr>Workflows := Map.empty\<rparr>)) ''/repo'' =
       Inr (Some (example_config\<lparr>Workflows := Map.empty\<rparr>))
   \<and> firstProject ''proj'' ''bare'' (Projects (example_config\<lparr>Workflows := Map.empty\<rparr>)) =
       Some \<lparr> Dir = ''proj'', ProjectConfig.Workspace = ''bare'', Workflow = [] \<rparr>
   \<and> Workflow \<lparr> Dir = ''proj'', ProjectConfig.Workspace = ''bare'', Workflow = [] \<rparr> = []
   \<and> snd (BuildPlanStage (example_env (example_config\<lparr>Workflows := Map.empty\<rparr>))
            example_reader (0::nat) ''/repo'' ''bare'' ''proj'' [] ''lkysow'') =
       Inr \<lparr> PlanStage.Steps = [Some (InitStep (example_meta ''bare'') []),
                                  Some (PlanStep (example_meta ''bare'') [])] \<rparr>
   \<and> snd (BuildApplyStage (example_env (example_config\<lparr>Workflows := Map.empty\<rparr>))
            example_reader (0::nat) ''/repo'' ''bare'' ''proj'' [] ''lkysow'') =
       Inr \<lparr> ApplyStage.Steps = [Some (ApplyStep (example_meta ''bare'') [])] \<rparr>"
proof -
  have c: "ReadConfig (example_env (example_config\<lparr>Workflows := Map.empty\<rparr>)) ''/repo'' =
       Inr (Some (example_config\<lparr>Workflows := Map.empty\<rparr>))"
    by (rule example_ReadConfig) (simp_all add: example_config_def)
  have f: "firstProject ''proj'' ''bare'' (Projects (example_config\<lparr>Workflows := Map.empty\<rparr>)) =
       Some \<lparr> Dir = ''proj'', ProjectConfig.Workspace = ''bare'', Workflow = [] \<rparr>"
    using example_first_bare by (simp add: example_config_def)
  have e: "Workflow \<lparr> Dir = ''proj'', ProjectConfig.Workspace = ''bare'', Workflow = [] \<rparr> = []"
    by simp
  show ?thesis
    using c f BuildStage_empty_workflow [OF c f e, where r = example_reader
        and stageName = "''plan''" and log = "0::nat" and extraCommentArgs = "[]"
        and username = "''lkysow''" and defaults = "[]"]
    by (simp add: example_buildMeta)
qed

subsection \<open>Determinism and the stage name\<close>

text \<open>
  Claim C9. \<^verbatim>\<open>BuildStage\<close> is a function of its arguments and of the contents of the
  configuration file: two calls with the same arguments, in two states of the file
  system that agree on what reading \<^verbatim>\<open>atlantis.yaml\<close> in the checkout gives, return the
  same result (the same steps or the same error) and log the same lines. Nothing else
  of the file system and no state kept between the calls has an influence.
\<close>

theorem BuildStage_deterministic:
  assumes "ioutil_ReadFile env' (filepath_Join env [repoDir, AtlantisYAMLFilename]) =
           ioutil_ReadFile env (filepath_Join env [repoDir, AtlantisYAMLFilename])"
    and "yaml_UnmarshalStrict env' = yaml_UnmarshalStrict env"
    and "filepath_Join env' = filepath_Join env"
    and "strings_Replace env' = strings_Replace env"
  shows "BuildStage env' r stageName log repoDir workspace relProjectPath extraCommentArgs
           username defaults =
         BuildStage env r stageName log repoDir workspace relProjectPath extraCommentArgs
           username defaults"
proof -
  have p: "ParseAndValidate env' configData = ParseAndValidate env configData" for configData
    unfolding ParseAndValidate_def assms(2,4) by (rule refl)
  have c: "ReadConfig env' repoDir = ReadConfig env repoDir"
    unfolding ReadConfig_def Let_def assms(3) p assms(1) by (rule refl)
  have m: "buildMeta env' r log repoDir workspace relProjectPath extraCommentArgs username =
           buildMeta env r log repoDir workspace relProjectPath extraCommentArgs username"
    using assms(3) by (simp add: buildMeta_def)
  have b: "buildProject env' r stageName log repoDir workspace relProjectPath extraCommentArgs
             username defaults workflows q =
           buildProject env r stageName log repoDir workspace relProjectPath extraCommentArgs
             username defaults workflows q" for workflows q
    unfolding buildProject_def m by (rule refl)
  have s: "scanProjects env' r stageName log repoDir workspace relProjectPath extraCommentArgs
             username defaults workflows ps =
           scanProjects env r stageName log repoDir workspace relProjectPath extraCommentArgs
             username defaults workflows ps" for workflows ps
    by (induction ps) (simp_all add: b)
  show ?thesis
    unfolding BuildStage_def c s by (rule refl)
qed

theorem BuildStage_deterministic_witness:
  "ioutil_ReadFile (example_env_other example_config)
       (filepath_Join (example_env example_config) [''/repo'', AtlantisYAMLFilename]) =
     ioutil_ReadFile (example_env example_config)
       (filepath_Join (example_env example_config) [''/repo'', AtlantisYAMLFilename])
   \<and> ioutil_ReadFile (example_env_other example_config) ''/repo/main.tf'' \<noteq>
     ioutil_ReadFile (example_env example_config) ''/repo/main.tf''
   \<and> BuildStage (example_env_other example_config) example_reader ''plan'' (0::nat) ''/repo''
        ''default'' ''proj'' [] ''lkysow'' [] =
     BuildStage (example_env example_config) example_reader ''plan'' (0::nat) ''/repo''
        ''default'' ''proj'' [] ''lkysow'' []"
proof -
  have f: "ioutil_ReadFile (example_env_other example_config)
       (filepath_Join (example_env example_config) [''/repo'', AtlantisYAMLFilename]) =
     ioutil_ReadFile (example_env example_config)
       (filepath_Join (example_env example_config) [''/repo'', AtlantisYAMLFilename])"
    by (simp add: example_env_other_def example_env_def example_Join_def
        AtlantisYAMLFilename_def)
  have g: "ioutil_ReadFile (example_env_other example_config) ''/repo/main.tf'' \<noteq>
     ioutil_ReadFile (example_env example_config) ''/repo/main.tf''"
    by (simp add: example_env_other_def example_env_def)
  have u: "yaml_UnmarshalStrict (example_env_other example_config) =
           yaml_UnmarshalStrict (example_env example_config)"
    by (simp add: example_env_other_def)
  have j: "filepath_Join (example_env_other example_config) =
           filepath_Join (example_env example_config)"
    by (simp add: example_env_other_def)
  have r: "strings_Replace (example_env_other example_config) =
           strings_Replace (example_env example_config)"
    by (simp add: example_env_other_def)
  show ?thesis
    using f g BuildStage_deterministic [OF f u j r] by simp
qed

text \<open>
  Claim C10. For a project that names a workflow that exists, every stage name other
  than \<^verbatim>\<open>plan\<close>, also one that is neither \<^verbatim>\<open>plan\<close> nor \<^verbatim>\<open>apply\<close>, selects the steps of the
  apply stage of the workflow: the call does not fail and returns what the call for
  \<^verbatim>\<open>apply\<close> returns.
\<close>

theorem BuildStage_other_stage_name:
  assumes "ReadConfig env repoDir = Inr (Some config)"
    and "firstProject relProjectPath workspace (Projects config) = Some p"
    and "Workflow p \<noteq> []"
    and "Workflows config (Workflow p) = Some workflow"
    and "stageName \<noteq> PlanStageName"
  shows "BuildStage env r stageName log repoDir workspace relProjectPath extraCommentArgs
           username defaults =
         ([], Inr (map (newStep (buildMeta env r log repoDir workspace relProjectPath
                                   extraCommentArgs username))
                     (StageConfig.Steps (Apply workflow))))
       \<and> BuildStage env r stageName log repoDir workspace relProjectPath extraCommentArgs
           username defaults =
         BuildStage env r ApplyStageName log repoDir workspace relProjectPath extraCommentArgs
           username defaults"
  using assms(5)
  by (simp add: BuildStage_workflow [OF assms(1-4)] PlanStageName_def ApplyStageName_def)

theorem BuildStage_other_stage_name_witness:
  "ReadConfig (example_env example_config) ''/repo'' = Inr (Some example_config)
   \<and> firstProject ''proj'' ''default'' (Projects example_config) =
       Some \<lparr> Dir = ''proj'', ProjectConfig.Workspace = ''default'', Workflow = ''custom1'' \<rparr>
   \<and> Workflows example_config ''custom1'' = Some example_workflow
   \<and> ''destroy'' \<noteq> PlanStageName
   \<and> BuildStage (example_env example_config) example_reader ''destroy'' (0::nat) ''/repo''
        ''default'' ''proj'' [] ''lkysow'' [] =
       ([], Inr [Some (ApplyStep (example_meta ''default'') [''-auto-approve''])])"
proof -
  have n: "''destroy'' \<noteq> PlanStageName"
    by (simp add: PlanStageName_def)
  have e: "Workflow \<lparr> Dir = ''proj'', ProjectConfig.Workspace = ''default'',
                      Workflow = ''custom1'' \<rparr> \<noteq> []"
    by simp
  have w: "Workflows example_config
             (Workflow \<lparr> Dir = ''proj'', ProjectConfig.Workspace = ''default'',
                         Workflow = ''custom1'' \<rparr>) = Some example_workflow"
    by (simp add: example_workflow_custom1)
  show ?thesis
    using n example_ReadConfig_config example_first_default_config example_workflow_custom1
      BuildStage_other_stage_name [OF example_ReadConfig_config example_first_default_config
        e w n, where r = example_reader and log = "0::nat" and extraCommentArgs = "[]"
        and username = "''lkysow''" and defaults = "[]"]
    by (simp add: example_buildMeta example_apply_steps)
qed

end
